theory Spec2Isabelle
  imports Main "HOL-Library.Word" "HOL-Library.Log_Nat"
begin

section \<open>Data model of main.go\<close>

text \<open>
  The program is a DNS proxy: \<open>ServeDNS\<close> answers an inbound message, \<open>resolveOverTLS\<close>
  resolves a name through the process-wide cache \<open>inmem\<close> or through one exchange with the
  upstream resolver. The embedding makes every effect of the two functions explicit: the
  cache is passed in and returned, the clock readings and the outcome of the upstream
  exchange are inputs, the log records and the messages handed to \<open>w.WriteMsg\<close> are outputs,
  and a panic is a value of its own.
\<close>

text \<open>\<open>type Answer struct { ip string; ttl uint32 }\<close>; \<open>var answer Answer\<close> is its zero value.\<close>

record Answer =
  ip :: string
  ttl :: "32 word"

definition zero_Answer :: Answer where
  "zero_Answer = \<lparr>ip = [], ttl = 0\<rparr>"

text \<open>
  Times are Unix times in nanoseconds (\<open>UnixNano\<close>), durations are nanoseconds
  (\<open>time.Duration\<close>). \<open>time.Time{}\<close>, the zero time, is January 1 of year 1.
\<close>

definition Second :: int where
  "Second = 1000000000"

definition Minute :: int where
  "Minute = 60 * Second"

definition zero_Time :: int where
  "zero_Time = - 62135596800 * Second"

definition minDuration :: int where
  "minDuration = - (2 ^ 63)"

definition maxDuration :: int where
  "maxDuration = 2 ^ 63 - 1"

text \<open>\<open>t.Sub(u)\<close>: the difference, saturated to the range of \<open>time.Duration\<close>.\<close>

definition Sub :: "int \<Rightarrow> int \<Rightarrow> int" where
  "Sub t u = (if t - u < minDuration then minDuration
              else if maxDuration < t - u then maxDuration
              else t - u)"

text \<open>
  \<open>uint32(d.Seconds())\<close>. \<open>Seconds\<close> returns \<open>float64(sec) + float64(nsec)/1e9\<close> for
  \<open>sec = d / Second\<close> and \<open>nsec = d % Second\<close>; the two conversions are exact, the
  quotient and the sum are each rounded to the nearest \<open>float64\<close>, ties to even. A
  \<open>float64\<close> is kept as an exact fraction, a numerator over a positive denominator.
\<close>

text \<open>\<open>a / b\<close> rounded to the nearest integer, ties to even (for \<open>0 \<le> a\<close> and \<open>0 < b\<close>).\<close>

definition rne_div :: "int \<Rightarrow> int \<Rightarrow> int" where
  "rne_div a b =
     (let q = a div b; r = a mod b
      in if 2 * r < b then q
         else if b < 2 * r then q + 1
         else if even q then q else q + 1)"

text \<open>Whether \<open>2 ^ k \<le> n / d\<close>, and the binary exponent of \<open>n / d\<close> (for \<open>0 < n\<close>, \<open>0 < d\<close>).\<close>

definition pow2_le :: "int \<Rightarrow> int \<Rightarrow> int \<Rightarrow> bool" where
  "pow2_le k n d = (if 0 \<le> k then d * 2 ^ nat k \<le> n else d \<le> n * 2 ^ nat (- k))"

definition exponent :: "int \<Rightarrow> int \<Rightarrow> int" where
  "exponent n d = (let k = bitlen n - bitlen d in if pow2_le k n d then k else k - 1)"

text \<open>
  The fraction \<open>n / d\<close> (\<open>0 \<le> n\<close>, \<open>0 < d\<close>) rounded to a \<open>float64\<close>: to a multiple of
  \<open>2 ^ (e - 52)\<close>, where \<open>e\<close> is its exponent. Overflow and subnormal numbers are left out:
  the values computed from a duration lie between \<open>1e-9\<close> and \<open>1e10\<close>.
\<close>

definition round64 :: "int \<times> int \<Rightarrow> int \<times> int" where
  "round64 x =
     (case x of (n, d) \<Rightarrow>
        if n = 0 then (0, 1)
        else (let p = 52 - exponent n d
              in if 0 \<le> p then (rne_div (n * 2 ^ nat p) d, 2 ^ nat p)
                 else (rne_div n (d * 2 ^ nat (- p)) * 2 ^ nat (- p), 1)))"

text \<open>\<open>d.Seconds()\<close> for \<open>0 \<le> d\<close>.\<close>

definition Seconds :: "int \<Rightarrow> int \<times> int" where
  "Seconds d =
     (let sec = d div Second; nsec = d mod Second
      in case round64 (nsec, 1000000000) of
           (fn, fd) \<Rightarrow> round64 (sec * fd + fn, fd))"

definition trunc :: "int \<times> int \<Rightarrow> int" where
  "trunc x = (case x of (n, d) \<Rightarrow> n div d)"

text \<open>
  The conversion to \<open>uint32\<close> truncates towards zero. For a negative duration the
  computation of \<open>Seconds\<close> is the mirror image of the one for \<open>- d\<close>. A value outside the
  range of \<open>uint32\<close>, where Go leaves the result to the implementation, keeps its low 32
  bits, as the conversion through a 64-bit integer does.
\<close>

definition uint32_Seconds :: "int \<Rightarrow> 32 word" where
  "uint32_Seconds d = word_of_int (sgn d * trunc (Seconds \<bar>d\<bar>))"

subsection \<open>The cache (package go-cache, as \<open>inmem\<close> uses it)\<close>

text \<open>
  A cached object is an \<open>interface{}\<close>: a value of dynamic type \<open>Answer\<close>, or of some other
  type. \<open>Item\<close> is the cache's \<open>struct { Object interface{}; Expiration int64 }\<close>, the
  cache itself a map from keys to items.
\<close>

datatype iface = IAnswer Answer | IOther string

record Item =
  Object :: iface
  Expiration :: int

type_synonym cache = "string \<rightharpoonup> Item"

text \<open>\<open>var inmem = cache.New(1*time.Minute, 1*time.Minute)\<close>: default expiration and sweep interval.\<close>

definition defaultExpiration :: int where
  "defaultExpiration = 1 * Minute"

definition inmem_New :: cache where
  "inmem_New = Map.empty"

text \<open>
  \<open>Set(k, x, d)\<close>: a duration of 0 (\<open>DefaultExpiration\<close>) stands for the cache's default;
  a positive duration gives the expiration \<open>now + d\<close>, any other leaves it 0 (never expires).
\<close>

definition Set_item :: "cache \<Rightarrow> int \<Rightarrow> string \<Rightarrow> iface \<Rightarrow> int \<Rightarrow> cache" where
  "Set_item c now k x d =
     (let d' = (if d = 0 then defaultExpiration else d);
          e = (if 0 < d' then now + d' else 0)
      in c(k \<mapsto> \<lparr>Object = x, Expiration = e\<rparr>))"

text \<open>
  \<open>GetWithExpiration(k)\<close>: the object, its expiration time and whether it was found. An
  item whose expiration has passed (\<open>now > Expiration\<close>) is not found; it stays in the map.
\<close>

definition GetWithExpiration :: "cache \<Rightarrow> int \<Rightarrow> string \<Rightarrow> iface option \<times> int \<times> bool" where
  "GetWithExpiration c now k =
     (case c k of
        None \<Rightarrow> (None, zero_Time, False)
      | Some item \<Rightarrow>
          if 0 < Expiration item then
            (if Expiration item < now then (None, zero_Time, False)
             else (Some (Object item), Expiration item, True))
          else (Some (Object item), zero_Time, True))"

text \<open>\<open>DeleteExpired()\<close>, run by the cache's janitor at every sweep interval.\<close>

definition DeleteExpired :: "cache \<Rightarrow> int \<Rightarrow> cache" where
  "DeleteExpired c now =
     (\<lambda>k. case c k of
             None \<Rightarrow> None
           | Some item \<Rightarrow> if 0 < Expiration item \<and> Expiration item < now then None else Some item)"

subsection \<open>DNS messages (package dns, as the handler uses it)\<close>

definition TypeA :: "16 word" where
  "TypeA = 1"

definition ClassINET :: "16 word" where
  "ClassINET = 1"

record Question =
  Name :: string
  Qtype :: "16 word"
  Qclass :: "16 word"

record RR_Header =
  Hdr_Name :: string
  Rrtype :: "16 word"
  Class :: "16 word"
  Ttl :: "32 word"

subsection \<open>Addresses (package net, as the program uses it)\<close>

text \<open>
  A \<open>net.IP\<close> as an \<open>A\<close> record holds it: nil, or an IPv4 address of four bytes (in its
  4-byte or its 16-byte form, which \<open>To4\<close> identifies). \<open>ip.String()\<close> is \<open><nil>\<close> for the
  nil address and the dotted decimal form otherwise. \<open>net.ParseIP\<close> looks for the first
  \<open>.\<close> or \<open>:\<close> of the text: without either the result is nil, with a \<open>.\<close> first the
  text is read by \<open>parseIPv4\<close> (four decimal numbers of at most 255, by \<open>dtoi\<close>, with
  dots between them). A text with a \<open>:\<close> first goes to \<open>parseIPv6\<close>, which is left out:
  \<open>String\<close> yields no such text for the addresses above, and the model gives nil.
\<close>

datatype IP = IP_nil | IPv4 "8 word" "8 word" "8 word" "8 word"

definition digit :: "nat \<Rightarrow> char" where
  "digit n = ''0123456789'' ! n"

fun uitoa :: "nat \<Rightarrow> string" where
  "uitoa n = (if n < 10 then [digit n] else uitoa (n div 10) @ [digit (n mod 10)])"

declare uitoa.simps [simp del]

fun IP_String :: "IP \<Rightarrow> string" where
  "IP_String IP_nil = ''<nil>''"
| "IP_String (IPv4 a b c d) =
     uitoa (unat a) @ ''.'' @ uitoa (unat b) @ ''.'' @ uitoa (unat c) @ ''.'' @ uitoa (unat d)"

definition is_digit :: "char \<Rightarrow> bool" where
  "is_digit c = (c \<in> set ''0123456789'')"

definition digit_value :: "char \<Rightarrow> nat" where
  "digit_value c = of_char c - 48"

fun dtoi_loop :: "nat \<Rightarrow> nat \<Rightarrow> string \<Rightarrow> nat \<times> nat \<times> bool" where
  "dtoi_loop n i [] = (n, i, True)"
| "dtoi_loop n i (c # s) =
     (if is_digit c then
        (if 16777215 \<le> n * 10 + digit_value c then (16777215, i, False)
         else dtoi_loop (n * 10 + digit_value c) (Suc i) s)
      else (n, i, True))"

definition dtoi :: "string \<Rightarrow> nat \<times> nat \<times> bool" where
  "dtoi s =
     (case dtoi_loop 0 0 s of
        (n, i, ok) \<Rightarrow> if \<not> ok then (n, i, False) else if i = 0 then (0, 0, False) else (n, i, True))"

definition octet :: "string \<Rightarrow> (8 word \<times> string) option" where
  "octet s = (case dtoi s of
                (n, c, ok) \<Rightarrow> if \<not> ok \<or> 255 < n then None else Some (word_of_nat n, drop c s))"

definition dot :: "string \<Rightarrow> string option" where
  "dot s = (case s of [] \<Rightarrow> None | c # s' \<Rightarrow> if c \<noteq> CHR ''.'' then None else Some s')"

definition parseIPv4 :: "string \<Rightarrow> IP" where
  "parseIPv4 s =
     (case octet s of None \<Rightarrow> IP_nil | Some (a, s1) \<Rightarrow>
      case Option.bind (dot s1) octet of None \<Rightarrow> IP_nil | Some (b, s2) \<Rightarrow>
      case Option.bind (dot s2) octet of None \<Rightarrow> IP_nil | Some (c, s3) \<Rightarrow>
      case Option.bind (dot s3) octet of None \<Rightarrow> IP_nil | Some (d, s4) \<Rightarrow>
      if s4 \<noteq> [] then IP_nil else IPv4 a b c d)"

fun ParseIP_scan :: "string \<Rightarrow> string \<Rightarrow> IP" where
  "ParseIP_scan s [] = IP_nil"
| "ParseIP_scan s (c # cs) =
     (if c = CHR ''.'' then parseIPv4 s
      else if c = CHR '':'' then IP_nil
      else ParseIP_scan s cs)"

definition ParseIP :: "string \<Rightarrow> IP" where
  "ParseIP s = ParseIP_scan s s"

subsection \<open>Resource records and messages\<close>

text \<open>A resource record is a \<open>*dns.A\<close>, a header and an address, or a record of another type.\<close>

datatype RR = dns_A RR_Header IP | dns_other RR_Header

record Msg =
  Id :: "16 word"
  Response :: bool
  Opcode :: int
  RecursionDesired :: bool
  CheckingDisabled :: bool
  Rcode :: int
  Questions :: "Question list"
  Answers :: "RR list"

text \<open>\<open>dns.Msg{}\<close>\<close>

definition zero_Msg :: Msg where
  "zero_Msg = \<lparr>Id = 0, Response = False, Opcode = 0, RecursionDesired = False,
               CheckingDisabled = False, Rcode = 0, Questions = [], Answers = []\<rparr>"

definition OpcodeQuery :: int where
  "OpcodeQuery = 0"

definition RcodeSuccess :: int where
  "RcodeSuccess = 0"

text \<open>
  \<open>msg.SetReply(request)\<close>: identifier and opcode of the request, the response bit, for a
  query the two flag bits, and a question section holding the request's first question.
\<close>

definition SetReply :: "Msg \<Rightarrow> Msg \<Rightarrow> Msg" where
  "SetReply m request =
     (let m1 = m\<lparr>Id := Id request, Response := True, Opcode := Opcode request\<rparr>;
          m2 = (if Opcode m1 = OpcodeQuery
                then m1\<lparr>RecursionDesired := RecursionDesired request,
                        CheckingDisabled := CheckingDisabled request\<rparr>
                else m1);
          m3 = m2\<lparr>Rcode := RcodeSuccess\<rparr>
      in if 0 < length (Questions request)
         then m3\<lparr>Questions := [Questions request ! 0]\<rparr>
         else m3)"

section \<open>resolveOverTLS\<close>

text \<open>
  A call reads the clock up to three times: inside \<open>GetWithExpiration\<close>, at the
  computation of the remaining TTL, and inside \<open>Set\<close>.
\<close>

record clock =
  now_get :: int
  now_ttl :: int
  now_set :: int

text \<open>
  What a call returns and does: the three results, the cache afterwards, and the
  exchanges made with the upstream resolver (server and question).
\<close>

record resolved =
  answer :: Answer
  useCache :: bool
  err :: "string option"
  inmem :: cache
  exchanged :: "(string \<times> Question) list"

datatype 'a outcome = Panic | Done 'a

text \<open>
  \<open>c.Exchange(m, dnsServer)\<close> is an input: \<open>Inl e\<close> for the error \<open>e\<close>, \<open>Inr rrs\<close> for
  a response whose answer section is \<open>rrs\<close>.
\<close>

definition SetQuestion :: "string \<Rightarrow> 16 word \<Rightarrow> Question" where
  "SetQuestion z t = \<lparr>Name = z, Qtype = t, Qclass = ClassINET\<rparr>"

definition resolveOverTLS ::
  "cache \<Rightarrow> clock \<Rightarrow> string + RR list \<Rightarrow> string \<Rightarrow> string \<Rightarrow> resolved outcome" where
  "resolveOverTLS c clk exch domain dnsServer =
     (case GetWithExpiration c (now_get clk) domain of
        (mem, expr, True) \<Rightarrow>
          (case mem of
             Some (IAnswer a) \<Rightarrow>
               Done \<lparr>answer = a\<lparr>ttl := uint32_Seconds (Sub expr (now_ttl clk))\<rparr>,
                     useCache = True, err = None, inmem = c, exchanged = []\<rparr>
           | _ \<Rightarrow> Panic)
      | (mem, expr, False) \<Rightarrow>
          (let m = SetQuestion domain TypeA in
           case exch of
             Inl e \<Rightarrow>
               Done \<lparr>answer = zero_Answer, useCache = False,
                     err = Some (''DNS query error: '' @ e), inmem = c,
                     exchanged = [(dnsServer, m)]\<rparr>
           | Inr rrs \<Rightarrow>
               (let stored = (\<lambda>a.
                      Done \<lparr>answer = a, useCache = False, err = None,
                            inmem = Set_item c (now_set clk) domain (IAnswer a)
                                      (uint (ttl a) * Second),
                            exchanged = [(dnsServer, m)]\<rparr>)
                in if 0 < length rrs then
                     (case rrs ! 0 of
                        dns_A h t \<Rightarrow> stored (zero_Answer\<lparr>ip := IP_String t, ttl := Ttl h\<rparr>)
                      | dns_other h \<Rightarrow>
                          Done \<lparr>answer = zero_Answer, useCache = False,
                                err = Some ''DNS query error'', inmem = c,
                                exchanged = [(dnsServer, m)]\<rparr>)
                   else stored zero_Answer)))"

section \<open>ServeDNS\<close>

text \<open>
  The response writer: the client's address and network, and the error \<open>w.WriteMsg\<close>
  returns (\<open>None\<close> for nil).
\<close>

record ResponseWriter =
  RemoteAddr_String :: string
  RemoteAddr_Network :: string
  WriteMsg_err :: "string option"

datatype log_entry =
    LogInfo "(string \<times> string) list" string
  | LogPrintln string
  | LogError string

text \<open>
  What a call does: the cache afterwards, the local \<open>msg\<close> as it stands at the
  return, the log records in order, the messages handed to \<open>w.WriteMsg\<close>, and the
  upstream exchanges.
\<close>

record served =
  srv_inmem :: cache
  srv_msg :: Msg
  srv_log :: "log_entry list"
  srv_written :: "Msg list"
  srv_exchanged :: "(string \<times> Question) list"

definition show_bool :: "bool \<Rightarrow> string" where
  "show_bool b = (if b then ''true'' else ''false'')"

definition ServeDNS ::
  "cache \<Rightarrow> clock \<Rightarrow> string + RR list \<Rightarrow> string \<Rightarrow> ResponseWriter \<Rightarrow> Msg \<Rightarrow> served outcome" where
  "ServeDNS c clk exch resolver w r =
     (let msg = SetReply zero_Msg r;
          not_implemented = LogError ''Not implemented yet''
      in if 0 < length (Questions r) then
           (let request_log = LogInfo [(''remote_addr'', RemoteAddr_String w),
                                       (''requested_domain'', Name (Questions r ! 0)),
                                       (''protocol'', RemoteAddr_Network w)] ''DNS request''
            in if Qtype (Questions r ! 0) = TypeA then
                 (let domain = Name (Questions msg ! 0) in
                  case resolveOverTLS c clk exch domain resolver of
                    Panic \<Rightarrow> Panic
                  | Done res \<Rightarrow>
                      (let err_log = (case err res of Some e \<Rightarrow> [LogPrintln e] | None \<Rightarrow> []);
                           cache_log = LogInfo [(''use_cache'', show_bool (useCache res))]
                                         ''Cache usage'';
                           msg' = msg\<lparr>Answers := Answers msg @
                                    [dns_A \<lparr>Hdr_Name = domain, Rrtype = TypeA, Class = ClassINET,
                                            Ttl = ttl (answer res)\<rparr>
                                           (ParseIP (ip (answer res)))]\<rparr>;
                           write_log = (case WriteMsg_err w of Some e \<Rightarrow> [LogError e]
                                        | None \<Rightarrow> [])
                       in Done \<lparr>srv_inmem = inmem res, srv_msg = msg',
                                srv_log = [request_log] @ err_log @ [cache_log] @ write_log,
                                srv_written = [msg'],
                                srv_exchanged = exchanged res\<rparr>))
               else Done \<lparr>srv_inmem = c, srv_msg = msg,
                          srv_log = [request_log, not_implemented],
                          srv_written = [], srv_exchanged = []\<rparr>)
         else Done \<lparr>srv_inmem = c, srv_msg = msg, srv_log = [not_implemented],
                    srv_written = [], srv_exchanged = []\<rparr>)"

section \<open>Cache states the program can reach\<close>

text \<open>
  The cache starts empty and changes only through calls of \<open>resolveOverTLS\<close> (each taken
  as one step) and through the janitor's sweeps.
\<close>

inductive reachable :: "cache \<Rightarrow> bool" where
  reachable_New: "reachable inmem_New"
| reachable_resolve:
    "reachable c \<Longrightarrow> resolveOverTLS c clk exch domain dnsServer = Done res
       \<Longrightarrow> reachable (inmem res)"
| reachable_sweep: "reachable c \<Longrightarrow> reachable (DeleteExpired c now)"

text \<open>Whether a lookup finds the key: the third result of \<open>GetWithExpiration\<close>.\<close>

definition found :: "cache \<Rightarrow> int \<Rightarrow> string \<Rightarrow> bool" where
  "found c now k = snd (snd (GetWithExpiration c now k))"

text \<open>Every cached object is an \<open>Answer\<close>.\<close>

definition all_Answers :: "cache \<Rightarrow> bool" where
  "all_Answers c = (\<forall>k item. c k = Some item \<longrightarrow> (\<exists>a. Object item = IAnswer a))"

section \<open>Concrete inputs\<close>

definition at_instant :: "int \<Rightarrow> clock" where
  "at_instant t = \<lparr>now_get = t, now_ttl = t, now_set = t\<rparr>"

definition client :: ResponseWriter where
  "client = \<lparr>RemoteAddr_String = ''127.0.0.1:40000'', RemoteAddr_Network = ''udp'',
             WriteMsg_err = None\<rparr>"

definition query :: "Question list \<Rightarrow> Msg" where
  "query qs = zero_Msg\<lparr>Id := 7, RecursionDesired := True, Questions := qs\<rparr>"

definition question_A :: Question where
  "question_A = \<lparr>Name = ''example.com.'', Qtype = TypeA, Qclass = ClassINET\<rparr>"

definition question_AAAA :: Question where
  "question_AAAA = \<lparr>Name = ''example.com.'', Qtype = 28, Qclass = ClassINET\<rparr>"

definition A_record :: "32 word \<Rightarrow> IP \<Rightarrow> RR" where
  "A_record t a =
     dns_A \<lparr>Hdr_Name = ''example.com.'', Rrtype = TypeA, Class = ClassINET, Ttl = t\<rparr> a"

definition request_log :: log_entry where
  "request_log = LogInfo [(''remote_addr'', ''127.0.0.1:40000''),
                          (''requested_domain'', ''example.com.''),
                          (''protocol'', ''udp'')] ''DNS request''"

text \<open>The reply to \<open>query (question_A # qs)\<close> with the answer section \<open>rrs\<close>.\<close>

definition reply :: "RR list \<Rightarrow> Msg" where
  "reply rrs = \<lparr>Id = 7, Response = True, Opcode = 0, RecursionDesired = True,
                CheckingDisabled = False, Rcode = 0, Questions = [question_A],
                Answers = rrs\<rparr>"

text \<open>
  What serving \<open>query [question_A]\<close> from an empty cache does, and serving
  \<open>query [question_A, question_AAAA]\<close> as well.
\<close>

definition served_two :: served where
  "served_two =
     \<lparr>srv_inmem = inmem_New(''example.com.'' \<mapsto>
                    \<lparr>Object = IAnswer \<lparr>ip = ''93.184.216.34'', ttl = 300\<rparr>,
                     Expiration = 300000001000\<rparr>),
      srv_msg = reply [A_record 300 (IPv4 93 184 216 34)],
      srv_log = [request_log, LogInfo [(''use_cache'', ''false'')] ''Cache usage''],
      srv_written = [reply [A_record 300 (IPv4 93 184 216 34)]],
      srv_exchanged = [(''1.1.1.1:853'', question_A)]\<rparr>"

text \<open>The cache holding one entry for \<open>example.com.\<close>\<close>

definition cached :: "Answer \<Rightarrow> int \<Rightarrow> cache" where
  "cached a e = inmem_New(''example.com.'' \<mapsto> \<lparr>Object = IAnswer a, Expiration = e\<rparr>)"

section \<open>Lookups\<close>

lemma found_miss:
  "\<not> found c now k \<Longrightarrow> \<exists>mem expr. GetWithExpiration c now k = (mem, expr, False)"
  by (cases "GetWithExpiration c now k") (auto simp: found_def)

lemma found_hit:
  "found c now k \<Longrightarrow> \<exists>mem expr. GetWithExpiration c now k = (mem, expr, True)"
  by (cases "GetWithExpiration c now k") (auto simp: found_def)

lemma not_found_New: "\<not> found inmem_New now k"
  by (simp add: found_def GetWithExpiration_def inmem_New_def)

lemma GetWithExpiration_hit:
  "GetWithExpiration c now k = (mem, e, True) \<Longrightarrow>
   \<exists>item. c k = Some item \<and> mem = Some (Object item) \<and>
          e = (if 0 < Expiration item then Expiration item else zero_Time)"
  by (auto simp: GetWithExpiration_def split: option.splits if_splits)

lemma resolveOverTLS_hit:
  "c domain = Some item \<Longrightarrow> Object item = IAnswer a \<Longrightarrow> found c (now_get clk) domain \<Longrightarrow>
   resolveOverTLS c clk exch domain dnsServer =
     Done \<lparr>answer = a\<lparr>ttl := uint32_Seconds
                    (Sub (if 0 < Expiration item then Expiration item else zero_Time)
                         (now_ttl clk))\<rparr>,
           useCache = True, err = None, inmem = c, exchanged = []\<rparr>"
  by (auto simp: resolveOverTLS_def found_def GetWithExpiration_def split: if_splits)

section \<open>Failed resolutions\<close>

text \<open>
  C6: a call of \<open>resolveOverTLS\<close> that misses the cache and whose upstream exchange ends in
  an error, or in a response whose first answer record is not an \<open>A\<close> record, returns an
  error and the zero-valued \<open>Answer\<close>, and leaves the cache as it was.
\<close>

theorem resolveOverTLS_failure_caches_nothing:
  "\<not> found c (now_get clk) domain \<Longrightarrow>
   exch = Inl e \<or> exch = Inr (dns_other h # rrs) \<Longrightarrow>
   \<exists>msg. resolveOverTLS c clk exch domain dnsServer =
     Done \<lparr>answer = zero_Answer, useCache = False, err = Some msg, inmem = c,
           exchanged = [(dnsServer, SetQuestion domain TypeA)]\<rparr>"
  by (auto dest!: found_miss simp: resolveOverTLS_def)

theorem resolveOverTLS_failure_caches_nothing_witness:
  "\<not> found inmem_New (now_get (at_instant 1000)) ''example.com.'' \<and>
   (\<exists>msg. resolveOverTLS inmem_New (at_instant 1000) (Inl ''timeout'') ''example.com.''
            ''1.1.1.1:853'' =
      Done \<lparr>answer = zero_Answer, useCache = False, err = Some msg, inmem = inmem_New,
            exchanged = [(''1.1.1.1:853'', SetQuestion ''example.com.'' TypeA)]\<rparr>) \<and>
   (\<exists>msg. resolveOverTLS inmem_New (at_instant 1000)
            (Inr [dns_other \<lparr>Hdr_Name = ''example.com.'', Rrtype = 5, Class = ClassINET,
                              Ttl = 300\<rparr>]) ''example.com.'' ''1.1.1.1:853'' =
      Done \<lparr>answer = zero_Answer, useCache = False, err = Some msg, inmem = inmem_New,
            exchanged = [(''1.1.1.1:853'', SetQuestion ''example.com.'' TypeA)]\<rparr>)"
  using resolveOverTLS_failure_caches_nothing
          [of inmem_New "at_instant 1000" "''example.com.''" "Inl ''timeout''" "''timeout''"]
        resolveOverTLS_failure_caches_nothing
          [of inmem_New "at_instant 1000" "''example.com.''"
              "Inr [dns_other \<lparr>Hdr_Name = ''example.com.'', Rrtype = 5, Class = ClassINET,
                                Ttl = 300\<rparr>]" _
              "\<lparr>Hdr_Name = ''example.com.'', Rrtype = 5, Class = ClassINET, Ttl = 300\<rparr>" "[]"]
  by (simp add: not_found_New)

section \<open>Messages without a question\<close>

text \<open>
  C7: for an inbound message with no question, \<open>ServeDNS\<close> returns normally, hands no
  message to \<open>w.WriteMsg\<close>, and writes one error record to the log; the cache is untouched
  and no upstream exchange is made.
\<close>

theorem ServeDNS_no_question:
  "Questions r = [] \<Longrightarrow>
   ServeDNS c clk exch resolver w r =
     Done \<lparr>srv_inmem = c, srv_msg = SetReply zero_Msg r,
           srv_log = [LogError ''Not implemented yet''],
           srv_written = [], srv_exchanged = []\<rparr>"
  by (simp add: ServeDNS_def)

theorem ServeDNS_no_question_witness:
  "Questions (query []) = [] \<and>
   ServeDNS inmem_New (at_instant 1000) (Inl ''timeout'') ''1.1.1.1:853'' client (query []) =
     Done \<lparr>srv_inmem = inmem_New, srv_msg = SetReply zero_Msg (query []),
           srv_log = [LogError ''Not implemented yet''],
           srv_written = [], srv_exchanged = []\<rparr>"
  using ServeDNS_no_question
          [of "query []" inmem_New "at_instant 1000" "Inl ''timeout''" "''1.1.1.1:853''" client]
  by (simp add: query_def zero_Msg_def)

section \<open>Responses without an answer\<close>

text \<open>
  C3: when the cache misses and the upstream response carries no answer record,
  \<open>resolveOverTLS\<close> returns the zero-valued \<open>Answer\<close> (empty address, TTL 0) with a nil
  error, and stores that \<open>Answer\<close> under the domain; the duration handed to the cache is
  the TTL 0 of that answer, which the cache replaces by its default of one minute.
\<close>

theorem resolveOverTLS_no_answer_is_cached:
  "\<not> found c (now_get clk) domain \<Longrightarrow>
   resolveOverTLS c clk (Inr []) domain dnsServer =
     Done \<lparr>answer = \<lparr>ip = [], ttl = 0\<rparr>, useCache = False, err = None,
           inmem = Set_item c (now_set clk) domain (IAnswer \<lparr>ip = [], ttl = 0\<rparr>) (0 * Second),
           exchanged = [(dnsServer, SetQuestion domain TypeA)]\<rparr> \<and>
   Set_item c (now_set clk) domain (IAnswer \<lparr>ip = [], ttl = 0\<rparr>) (0 * Second) =
     c(domain \<mapsto> \<lparr>Object = IAnswer \<lparr>ip = [], ttl = 0\<rparr>,
                    Expiration = now_set clk + 60 * Second\<rparr>)"
  by (auto dest!: found_miss simp: resolveOverTLS_def zero_Answer_def Set_item_def
      defaultExpiration_def Minute_def Second_def)

theorem resolveOverTLS_no_answer_is_cached_witness:
  "\<not> found inmem_New (now_get (at_instant 1000)) ''example.com.'' \<and>
   resolveOverTLS inmem_New (at_instant 1000) (Inr []) ''example.com.'' ''1.1.1.1:853'' =
     Done \<lparr>answer = \<lparr>ip = [], ttl = 0\<rparr>, useCache = False, err = None,
           inmem = inmem_New(''example.com.'' \<mapsto>
                     \<lparr>Object = IAnswer \<lparr>ip = [], ttl = 0\<rparr>, Expiration = 60000001000\<rparr>),
           exchanged = [(''1.1.1.1:853'', SetQuestion ''example.com.'' TypeA)]\<rparr>"
  using resolveOverTLS_no_answer_is_cached
          [of inmem_New "at_instant 1000" "''example.com.''" "''1.1.1.1:853''"]
  by (simp add: not_found_New at_instant_def Second_def)

section \<open>The cache holds answers only\<close>

lemma resolveOverTLS_inmem:
  "resolveOverTLS c clk exch domain dnsServer = Done res \<Longrightarrow>
   inmem res = c \<or> (\<exists>a d. inmem res = Set_item c (now_set clk) domain (IAnswer a) d)"
  unfolding resolveOverTLS_def
  by (fastforce simp: Let_def split: prod.splits bool.splits option.splits iface.splits
      sum.splits if_splits RR.splits)

lemma all_Answers_Set_item: "all_Answers c \<Longrightarrow> all_Answers (Set_item c now k (IAnswer a) d)"
  by (auto simp: all_Answers_def Set_item_def Let_def)

lemma all_Answers_DeleteExpired: "all_Answers c \<Longrightarrow> all_Answers (DeleteExpired c now)"
  by (auto simp: all_Answers_def DeleteExpired_def split: option.splits if_splits)

lemma reachable_all_Answers: "reachable c \<Longrightarrow> all_Answers c"
proof (induction rule: reachable.induct)
  case reachable_New
  show ?case by (simp add: all_Answers_def inmem_New_def)
next
  case (reachable_resolve c clk exch domain dnsServer res)
  from resolveOverTLS_inmem [OF reachable_resolve.hyps(2)] reachable_resolve.IH
  show ?case by (auto intro: all_Answers_Set_item)
next
  case (reachable_sweep c now)
  from reachable_sweep.IH show ?case by (rule all_Answers_DeleteExpired)
qed

lemma all_Answers_no_Panic:
  "all_Answers c \<Longrightarrow> resolveOverTLS c clk exch domain dnsServer \<noteq> Panic"
proof (cases "found c (now_get clk) domain")
  case True
  assume inv: "all_Answers c"
  from found_hit [OF True] obtain mem e where
    g: "GetWithExpiration c (now_get clk) domain = (mem, e, True)" by blast
  from GetWithExpiration_hit [OF g] obtain item where i: "c domain = Some item" by blast
  from inv i obtain a where a: "Object item = IAnswer a" by (auto simp: all_Answers_def)
  from resolveOverTLS_hit [OF i a True] show ?thesis by simp
next
  case False
  from found_miss [OF False] show ?thesis
    by (auto simp: resolveOverTLS_def Let_def split: sum.splits RR.splits if_splits)
qed

lemma ServeDNS_Panic:
  "ServeDNS c clk exch resolver w r = Panic \<Longrightarrow>
   resolveOverTLS c clk exch (Name (Questions (SetReply zero_Msg r) ! 0)) resolver = Panic"
  by (auto simp: ServeDNS_def Let_def split: if_splits outcome.splits)

text \<open>
  C9: in every cache state the program can reach, each stored object is an \<open>Answer\<close>
  (the only write is the \<open>Set\<close> of an \<open>Answer\<close> in \<open>resolveOverTLS\<close>), so the type
  assertion \<open>mem.(Answer)\<close> of the cache-hit path does not panic: neither
  \<open>resolveOverTLS\<close> nor \<open>ServeDNS\<close> panics from such a state.
\<close>

theorem reachable_cache_holds_Answers:
  "reachable c \<Longrightarrow>
   all_Answers c \<and> resolveOverTLS c clk exch domain dnsServer \<noteq> Panic \<and>
   ServeDNS c clk exch resolver w r \<noteq> Panic"
  using reachable_all_Answers [of c] all_Answers_no_Panic ServeDNS_Panic by blast

section \<open>Cache hits\<close>

text \<open>
  C10: when the domain is found in a reachable cache, \<open>resolveOverTLS\<close> returns the stored
  answer with its TTL recomputed from the expiration of the entry, \<open>useCache = true\<close> and
  a nil error; it makes no upstream exchange and returns the cache as it was.
\<close>

theorem resolveOverTLS_cache_hit:
  "reachable c \<Longrightarrow> found c (now_get clk) domain \<Longrightarrow>
   \<exists>item a. c domain = Some item \<and> Object item = IAnswer a \<and>
     resolveOverTLS c clk exch domain dnsServer =
       Done \<lparr>answer = a\<lparr>ttl := uint32_Seconds
                      (Sub (if 0 < Expiration item then Expiration item else zero_Time)
                           (now_ttl clk))\<rparr>,
             useCache = True, err = None, inmem = c, exchanged = []\<rparr>"
proof -
  assume r: "reachable c" and f: "found c (now_get clk) domain"
  from found_hit [OF f] obtain mem e where
    g: "GetWithExpiration c (now_get clk) domain = (mem, e, True)" by blast
  from GetWithExpiration_hit [OF g] obtain item where
    i: "c domain = Some item" by blast
  from reachable_all_Answers [OF r] i obtain a where a: "Object item = IAnswer a"
    by (auto simp: all_Answers_def)
  from resolveOverTLS_hit [OF i a f] i a show ?thesis by blast
qed

section \<open>The reply\<close>

text \<open>
  C8: for every inbound query, a message with at most one question as the listener hands
  them to the handler, the reply built by \<open>ServeDNS\<close> carries the identifier and the
  question section of the inbound message, and zero or one answer record; a message handed
  to \<open>w.WriteMsg\<close> is that reply.
\<close>

theorem ServeDNS_reply_mirrors:
  "length (Questions r) \<le> 1 \<Longrightarrow> ServeDNS c clk exch resolver w r = Done s \<Longrightarrow>
   Id (srv_msg s) = Id r \<and> Questions (srv_msg s) = Questions r \<and>
   length (Answers (srv_msg s)) \<le> 1 \<and> set (srv_written s) \<subseteq> {srv_msg s}"
proof -
  assume one: "length (Questions r) \<le> 1" and run: "ServeDNS c clk exch resolver w r = Done s"
  have q: "Questions (SetReply zero_Msg r) = Questions r"
  proof (cases "Questions r")
    case Nil
    then show ?thesis by (simp add: SetReply_def zero_Msg_def Let_def)
  next
    case (Cons q qs)
    with one have "qs = []" by simp
    with Cons show ?thesis by (simp add: SetReply_def zero_Msg_def Let_def)
  qed
  have i: "Id (SetReply zero_Msg r) = Id r" and a: "Answers (SetReply zero_Msg r) = []"
    by (simp_all add: SetReply_def zero_Msg_def Let_def)
  from run q i a show ?thesis
    by (auto simp: ServeDNS_def Let_def split: if_splits outcome.splits)
qed

section \<open>Unsupported question types\<close>

text \<open>
  C2 (as amended): when the first question of an inbound message is not of type \<open>A\<close>,
  \<open>ServeDNS\<close> returns normally, logs the request and the error record
  \<open>Not implemented yet\<close>, and hands no message to \<open>w.WriteMsg\<close>; the cache is untouched
  and no upstream exchange is made.
\<close>

theorem ServeDNS_unsupported_type:
  "0 < length (Questions r) \<Longrightarrow> Qtype (Questions r ! 0) \<noteq> TypeA \<Longrightarrow>
   ServeDNS c clk exch resolver w r =
     Done \<lparr>srv_inmem = c, srv_msg = SetReply zero_Msg r,
           srv_log = [LogInfo [(''remote_addr'', RemoteAddr_String w),
                               (''requested_domain'', Name (Questions r ! 0)),
                               (''protocol'', RemoteAddr_Network w)] ''DNS request'',
                      LogError ''Not implemented yet''],
           srv_written = [], srv_exchanged = []\<rparr>"
  by (simp add: ServeDNS_def)

section \<open>Remaining lifetime of an entry\<close>












lemma rne_div_zero: "0 < b \<Longrightarrow> rne_div 0 b = 0"
  by (simp add: rne_div_def)





















section \<open>Concrete runs\<close>

lemma uitoa_digit: "n < 10 \<Longrightarrow> uitoa n = [digit n]"
  by (simp add: uitoa.simps)

lemma uitoa_numeral:
  "uitoa (numeral k) = (if (numeral k :: nat) < 10 then [digit (numeral k)]
     else uitoa (numeral k div 10) @ [digit (numeral k mod 10)])"
  by (rule uitoa.simps)

lemmas IP_defs = uitoa_digit uitoa_numeral digit_def ParseIP_def parseIPv4_def octet_def dot_def
  dtoi_def is_digit_def digit_value_def

lemma IP_examples:
  "IP_String (IPv4 93 184 216 34) = ''93.184.216.34''"
  "ParseIP ''93.184.216.34'' = IPv4 93 184 216 34"
  "ParseIP [] = IP_nil"
  "ParseIP ''<nil>'' = IP_nil"
  by (simp_all add: IP_defs)

lemma uint32_Seconds_examples:
  "uint32_Seconds 300000000000 = 300"
  "uint32_Seconds 298000000000 = 298"
  "uint32_Seconds 60000000000 = 60"
  "uint32_Seconds 59000000000 = 59"
  "uint32_Seconds 500000000 = 0"
  "uint32_Seconds 16777216999999999 = 16777217"
  "uint32_Seconds (- 2500000000) = 4294967294"
  by code_simp+

lemmas example_defs = uint32_Seconds_examples IP_examples uitoa_digit uitoa_numeral digit_def resolveOverTLS_def GetWithExpiration_def inmem_New_def at_instant_def
  A_record_def zero_Answer_def Set_item_def Second_def Minute_def defaultExpiration_def
  cached_def SetQuestion_def Sub_def minDuration_def maxDuration_def found_def

lemmas serve_defs = ServeDNS_def SetReply_def zero_Msg_def query_def question_A_def
  question_AAAA_def client_def request_log_def reply_def show_bool_def
  TypeA_def ClassINET_def OpcodeQuery_def RcodeSuccess_def served_two_def Let_def

lemma resolve_example:
  "resolveOverTLS inmem_New (at_instant 1000) (Inr [A_record 300 (IPv4 93 184 216 34)])
     ''example.com.'' ''1.1.1.1:853'' =
     Done \<lparr>answer = \<lparr>ip = ''93.184.216.34'', ttl = 300\<rparr>, useCache = False, err = None,
           inmem = cached \<lparr>ip = ''93.184.216.34'', ttl = 300\<rparr> 300000001000,
           exchanged = [(''1.1.1.1:853'', SetQuestion ''example.com.'' TypeA)]\<rparr>"
  by (simp add: example_defs)

lemma reachable_cached: "reachable (cached \<lparr>ip = ''93.184.216.34'', ttl = 300\<rparr> 300000001000)"
  using reachable_resolve [OF reachable_New resolve_example] by simp

lemma found_cached:
  "found (cached \<lparr>ip = ''93.184.216.34'', ttl = 300\<rparr> 300000001000) 2000001000 ''example.com.''"
  by (simp add: example_defs)

lemma serve_two:
  "ServeDNS inmem_New (at_instant 1000) (Inr [A_record 300 (IPv4 93 184 216 34)]) ''1.1.1.1:853''
     client (query [question_A, question_AAAA]) = Done served_two"
  by (simp add: example_defs serve_defs)

lemma serve_one:
  "ServeDNS inmem_New (at_instant 1000) (Inr [A_record 300 (IPv4 93 184 216 34)]) ''1.1.1.1:853''
     client (query [question_A]) = Done served_two"
  by (simp add: example_defs serve_defs)

lemma serve_AAAA:
  "ServeDNS inmem_New (at_instant 1000) (Inr [A_record 300 (IPv4 93 184 216 34)]) ''1.1.1.1:853''
     client (query [question_AAAA]) =
     Done \<lparr>srv_inmem = inmem_New,
           srv_msg = (reply [])\<lparr>Questions := [question_AAAA]\<rparr>,
           srv_log = [request_log, LogError ''Not implemented yet''],
           srv_written = [], srv_exchanged = []\<rparr>"
  by (simp add: example_defs serve_defs)

text \<open>
  C1, at a query of type \<open>A\<close> for which the cache misses and the upstream exchange fails:
  \<open>ServeDNS\<close> logs the error, and the message it hands to \<open>w.WriteMsg\<close> carries one
  answer record, built from the zero-valued \<open>Answer\<close> (TTL 0, nil address), where the claim
  has a reply without answer records.
\<close>

theorem ServeDNS_upstream_failure_sends_answer:
  "ServeDNS inmem_New (at_instant 1000) (Inl ''timeout'') ''1.1.1.1:853'' client
     (query [question_A]) =
     Done \<lparr>srv_inmem = inmem_New, srv_msg = reply [A_record 0 IP_nil],
           srv_log = [request_log, LogPrintln ''DNS query error: timeout'',
                      LogInfo [(''use_cache'', ''false'')] ''Cache usage''],
           srv_written = [reply [A_record 0 IP_nil]],
           srv_exchanged = [(''1.1.1.1:853'', question_A)]\<rparr> \<and>
   length (Answers (reply [A_record 0 IP_nil])) = 1"
  by (simp add: example_defs serve_defs)

text \<open>
  C2 as stated fails: for a single question of type \<open>AAAA\<close> nothing is handed to
  \<open>w.WriteMsg\<close>; and a message whose second question is not of type \<open>A\<close>, behind a first
  one of type \<open>A\<close>, is served as a query of type \<open>A\<close>, with one answer record and no
  error record.
\<close>

theorem ServeDNS_unsupported_type_counterexample:
  "ServeDNS inmem_New (at_instant 1000) (Inr [A_record 300 (IPv4 93 184 216 34)]) ''1.1.1.1:853''
     client (query [question_AAAA]) =
     Done \<lparr>srv_inmem = inmem_New,
           srv_msg = (reply [])\<lparr>Questions := [question_AAAA]\<rparr>,
           srv_log = [request_log, LogError ''Not implemented yet''],
           srv_written = [], srv_exchanged = []\<rparr> \<and>
   Qtype (Questions (query [question_A, question_AAAA]) ! 1) \<noteq> TypeA \<and>
   ServeDNS inmem_New (at_instant 1000) (Inr [A_record 300 (IPv4 93 184 216 34)]) ''1.1.1.1:853''
     client (query [question_A, question_AAAA]) = Done served_two \<and>
   srv_log served_two = [request_log, LogInfo [(''use_cache'', ''false'')] ''Cache usage''] \<and>
   map Answers (srv_written served_two) = [[A_record 300 (IPv4 93 184 216 34)]]"
  using serve_AAAA serve_two
  by (simp add: served_two_def reply_def query_def question_AAAA_def TypeA_def)

text \<open>The amended C2 at a single question of type \<open>AAAA\<close>.\<close>

theorem ServeDNS_unsupported_type_witness:
  "0 < length (Questions (query [question_AAAA])) \<and>
   Qtype (Questions (query [question_AAAA]) ! 0) \<noteq> TypeA \<and>
   ServeDNS inmem_New (at_instant 1000) (Inl ''timeout'') ''1.1.1.1:853'' client
     (query [question_AAAA]) =
     Done \<lparr>srv_inmem = inmem_New, srv_msg = SetReply zero_Msg (query [question_AAAA]),
           srv_log = [request_log, LogError ''Not implemented yet''],
           srv_written = [], srv_exchanged = []\<rparr>"
  using ServeDNS_unsupported_type [of "query [question_AAAA]" inmem_New "at_instant 1000"
          "Inl ''timeout''" "''1.1.1.1:853''" client]
  by (simp add: query_def question_AAAA_def TypeA_def client_def request_log_def)

text \<open>C8 at a query of type \<open>A\<close>, answered from upstream.\<close>

theorem ServeDNS_reply_mirrors_witness:
  "length (Questions (query [question_A])) \<le> 1 \<and>
   ServeDNS inmem_New (at_instant 1000) (Inr [A_record 300 (IPv4 93 184 216 34)]) ''1.1.1.1:853''
     client (query [question_A]) = Done served_two \<and>
   Id (srv_msg served_two) = Id (query [question_A]) \<and>
   Questions (srv_msg served_two) = Questions (query [question_A]) \<and>
   length (Answers (srv_msg served_two)) \<le> 1 \<and>
   set (srv_written served_two) \<subseteq> {srv_msg served_two}"
  using ServeDNS_reply_mirrors [OF _ serve_one] serve_one by (simp add: query_def)

text \<open>The cache after one resolution is reachable and holds an \<open>Answer\<close>.\<close>

theorem reachable_cache_holds_Answers_witness:
  "reachable (cached \<lparr>ip = ''93.184.216.34'', ttl = 300\<rparr> 300000001000) \<and>
   all_Answers (cached \<lparr>ip = ''93.184.216.34'', ttl = 300\<rparr> 300000001000) \<and>
   resolveOverTLS (cached \<lparr>ip = ''93.184.216.34'', ttl = 300\<rparr> 300000001000)
     (at_instant 2000001000) (Inl ''timeout'') ''example.com.'' ''1.1.1.1:853'' \<noteq> Panic \<and>
   ServeDNS (cached \<lparr>ip = ''93.184.216.34'', ttl = 300\<rparr> 300000001000)
     (at_instant 2000001000) (Inl ''timeout'') ''1.1.1.1:853'' client
     (query [question_A]) \<noteq> Panic"
  using reachable_cache_holds_Answers [OF reachable_cached] reachable_cached
  by simp

text \<open>A hit two seconds after the entry was stored with a TTL of 300 seconds.\<close>

theorem resolveOverTLS_cache_hit_witness:
  "reachable (cached \<lparr>ip = ''93.184.216.34'', ttl = 300\<rparr> 300000001000) \<and>
   found (cached \<lparr>ip = ''93.184.216.34'', ttl = 300\<rparr> 300000001000)
     (now_get (at_instant 2000001000)) ''example.com.'' \<and>
   resolveOverTLS (cached \<lparr>ip = ''93.184.216.34'', ttl = 300\<rparr> 300000001000)
     (at_instant 2000001000) (Inl ''timeout'') ''example.com.'' ''1.1.1.1:853'' =
     Done \<lparr>answer = \<lparr>ip = ''93.184.216.34'', ttl = 298\<rparr>, useCache = True, err = None,
           inmem = cached \<lparr>ip = ''93.184.216.34'', ttl = 300\<rparr> 300000001000,
           exchanged = []\<rparr>"
  using resolveOverTLS_cache_hit [OF reachable_cached, of "at_instant 2000001000"
          "''example.com.''" "Inl ''timeout''" "''1.1.1.1:853''"]
        reachable_cached found_cached
  by (simp add: at_instant_def cached_def inmem_New_def uint32_Seconds_examples Sub_def
      Second_def minDuration_def maxDuration_def)

section \<open>Reading an entry back\<close>







end
